theory Spec2Isabelle
  imports Complex_Main "HOL-Library.List_Lexorder"
begin

section \<open>The query logger of oxmysql (src/logger/index.ts)\<close>

text \<open>
  The module keeps one in-memory log of executed queries per invoking resource, prints slow
  queries, correlates the rows of the engine's profiler with the statements of a batch, and
  serves pages of a resource's log to the dashboard.

  Conventions of the embedding:
  \<^item> a JavaScript string is the list of its UTF-16 code units, each a natural number
    (\<open>jsstring\<close>); \<open>js ''abc''\<close> is the string of an ASCII literal; strings are compared
    lexicographically by code unit, as the operator \<^verbatim>\<open>>\<close> does;
  \<^item> JavaScript numbers that hold durations are \<open>real\<close> (rounding and NaN are not modelled);
    numbers that hold indices, sizes and timestamps are \<open>int\<close>;
  \<^item> \<open>undefined\<close> and \<open>null\<close> are \<open>None\<close>;
  \<^item> a parameter set (\<open>CFXParameters\<close>) is a value of an arbitrary type \<open>'p\<close>;
  \<^item> the module-level object \<open>logStorage\<close> and the console are fields of an explicit state;
  \<^item> the values imported from \<open>../config\<close> are the fields of a record \<open>Config\<close>;
  \<^item> what the host supplies (\<open>Date.now\<close>, \<open>parseFloat\<close>, \<open>JSON.stringify\<close>,
    \<open>String.prototype.toLowerCase\<close>, \<open>Array.prototype.sort\<close>, \<open>IsPlayerAceAllowed\<close>)
    is an argument of the function that uses it.
\<close>

subsection \<open>Strings\<close>

type_synonym jsstring = "nat list"

definition js :: "string \<Rightarrow> jsstring" where
  "js s = map of_char s"

subsection \<open>Configuration, records and state\<close>

text \<open>\<open>mysql_debug\<close> is a boolean or a list of resource names.\<close>

datatype MysqlDebug = DebugFlag bool | DebugResources "jsstring list"

record Config =
  mysql_debug :: MysqlDebug
  mysql_log_size :: int
  mysql_slow_query_warning :: real
  mysql_ui :: bool

text \<open>\<open>interface QueryData\<close>; the optional field \<open>slow\<close> is \<open>true\<close> or \<open>undefined\<close>.\<close>

record QueryData =
  date :: int
  query :: jsstring
  executionTime :: real
  slow :: "bool option"

text \<open>What one \<open>console.log\<close> of \<open>logQuery\<close> prints, before formatting.\<close>

record 'p ConsoleLine =
  cl_resource :: jsstring
  cl_executionTime :: real
  cl_query :: jsstring
  cl_parameters :: "'p option"

text \<open>
  \<open>logStorage\<close> holds the own properties of the object \<open>const logStorage = {}\<close>.
\<close>

record 'p State =
  logStorage :: "jsstring \<rightharpoonup> QueryData list"
  console :: "'p ConsoleLine list"

datatype error = TypeError

text \<open>
  \<open>logStorage\<close> is a plain object, so \<open>logStorage[key]\<close> follows the prototype chain: for
  a key without an own property it is the property of \<open>Object.prototype\<close> of that name,
  when there is one, and \<open>undefined\<close> otherwise. The properties of \<open>Object.prototype\<close> are
  functions, and \<open>__proto__\<close> gives \<open>Object.prototype\<close> itself: all of them are truthy and
  none has a method \<open>push\<close>, \<open>splice\<close>, \<open>filter\<close> or \<open>slice\<close>, nor is iterable.
\<close>

definition objectPrototypeKeys :: "jsstring list" where
  "objectPrototypeKeys =
     map js [''constructor'', ''__defineGetter__'', ''__defineSetter__'', ''hasOwnProperty'',
             ''__lookupGetter__'', ''__lookupSetter__'', ''isPrototypeOf'',
             ''propertyIsEnumerable'', ''toString'', ''valueOf'', ''__proto__'',
             ''toLocaleString'']"

datatype 'a Property = Undefined | Inherited | Own 'a

definition getProperty :: "(jsstring \<rightharpoonup> 'a) \<Rightarrow> jsstring \<Rightarrow> 'a Property" where
  "getProperty obj key =
     (case obj key of
        Some v \<Rightarrow> Own v
      | None \<Rightarrow> if List.member objectPrototypeKeys key then Inherited else Undefined)"

subsection \<open>logQuery\<close>

text \<open>
  The condition of lines 102 and 103, the line that is printed, and the object pushed at
  lines 117 to 122.
\<close>

abbreviation shouldPrint :: "Config \<Rightarrow> jsstring \<Rightarrow> real \<Rightarrow> bool" where
  "shouldPrint cfg invokingResource t \<equiv>
     (mysql_slow_query_warning cfg \<le> t \<or>
      (case mysql_debug cfg of
         DebugFlag b \<Rightarrow> b
       | DebugResources rs \<Rightarrow> List.member rs invokingResource))"

abbreviation consoleLine :: "jsstring \<Rightarrow> real \<Rightarrow> jsstring \<Rightarrow> 'p option \<Rightarrow> 'p ConsoleLine" where
  "consoleLine invokingResource t q parameters \<equiv>
     \<lparr>cl_resource = invokingResource, cl_executionTime = t, cl_query = q,
      cl_parameters = parameters\<rparr>"

abbreviation queryData :: "Config \<Rightarrow> jsstring \<Rightarrow> real \<Rightarrow> int \<Rightarrow> QueryData" where
  "queryData cfg q t now \<equiv>
     \<lparr>date = now, query = q, executionTime = t,
      slow = (if mysql_slow_query_warning cfg \<le> t then Some True else None)\<rparr>"

text \<open>
  A function of this module that touches the state returns the new state, or, when it
  throws, the error with the state at that moment.
\<close>

type_synonym 'p Result = "(error \<times> 'p State) + 'p State"

text \<open>
  \<open>now\<close> is the value \<open>Date.now()\<close> returns in this call. \<open>splice(0, 1)\<close> removes
  the first element, which is \<open>tl\<close>. For an inherited property the test of line 114 fails
  (the value is truthy), and \<open>splice\<close> (line 115) or \<open>push\<close> (line 117) is not a
  function.
\<close>

definition logQuery ::
  "Config \<Rightarrow> jsstring \<Rightarrow> jsstring \<Rightarrow> real \<Rightarrow> 'p option \<Rightarrow> int \<Rightarrow> 'p State \<Rightarrow> 'p Result" where
  "logQuery cfg invokingResource q t parameters now st =
     (let st1 =
        (if shouldPrint cfg invokingResource t
         then st\<lparr>console := console st @ [consoleLine invokingResource t q parameters]\<rparr>
         else st)
      in if \<not> mysql_ui cfg then Inr st1
         else
           (case getProperty (logStorage st1) invokingResource of
              Undefined \<Rightarrow>
                Inr (st1\<lparr>logStorage := (logStorage st1)(invokingResource \<mapsto>
                       [queryData cfg q t now])\<rparr>)
            | Inherited \<Rightarrow> Inl (TypeError, st1)
            | Own xs \<Rightarrow>
                Inr (st1\<lparr>logStorage := (logStorage st1)(invokingResource \<mapsto>
                       (if mysql_log_size cfg < int (length xs) then tl xs else xs) @
                       [queryData cfg q t now])\<rparr>)))"

text \<open>
  A sequence of calls of \<open>logQuery\<close>, each given as
  (resource, query, execution time, parameters, \<open>Date.now()\<close>); a call that throws ends
  the sequence.
\<close>

type_synonym 'p LogCall = "jsstring \<times> jsstring \<times> real \<times> 'p option \<times> int"

fun logQueries :: "Config \<Rightarrow> 'p LogCall list \<Rightarrow> 'p State \<Rightarrow> 'p Result" where
  "logQueries cfg [] st = Inr st"
| "logQueries cfg ((r, q, t, p, now) # calls) st =
     (case logQuery cfg r q t p now st of
        Inl e \<Rightarrow> Inl e
      | Inr st' \<Rightarrow> logQueries cfg calls st')"

subsection \<open>profileBatchStatements\<close>

text \<open>
  The argument \<open>query\<close> is a string (one template, run once per element of
  \<open>parameters\<close>) or an array of \<open>{query, params?}\<close>.
\<close>

record 'p Transaction =
  tx_query :: jsstring
  tx_params :: "'p option"

datatype 'p BatchQuery = QueryString jsstring | QueryArray "'p Transaction list"

text \<open>
  A row of the profiler, as the \<open>SELECT\<close> of line 63 returns it: the column
  \<open>duration\<close> is the text that \<open>FORMAT(SUM(DURATION) * 1000, 4)\<close> makes of the
  statement's duration.
\<close>

record ProfilerRow =
  duration :: jsstring

text \<open>
  The \<open>SELECT\<close> of line 63, on the sums of \<open>DURATION\<close> (in seconds) of the profiled
  statements, one for each \<open>QUERY_ID\<close> in the order in which the engine returns the
  groups: each sum is multiplied by 1000 and formatted. \<open>sqlFormat x\<close> is the text of
  \<open>FORMAT(x, 4)\<close>; the engine's function is an argument.
\<close>

definition selectProfiling :: "(real \<Rightarrow> jsstring) \<Rightarrow> real list \<Rightarrow> ProfilerRow list" where
  "selectProfiling sqlFormat totals = map (\<lambda>d. \<lparr>duration = sqlFormat (d * 1000)\<rparr>) totals"

text \<open>\<open>xs[k]\<close>: \<open>undefined\<close> outside the array.\<close>

definition index :: "'a list \<Rightarrow> int \<Rightarrow> 'a option" where
  "index xs k = (if 0 \<le> k \<and> k < int (length xs) then Some (xs ! nat k) else None)"

text \<open>
  The loop of lines 72 to 74, from row \<open>i\<close> on; \<open>rows\<close> are the rows not yet visited,
  \<open>clock i\<close> is \<open>Date.now()\<close> in iteration \<open>i\<close>.
\<close>

fun templateLoop ::
  "Config \<Rightarrow> (jsstring \<Rightarrow> real) \<Rightarrow> (nat \<Rightarrow> int) \<Rightarrow> jsstring \<Rightarrow> jsstring \<Rightarrow> 'p list \<Rightarrow> int \<Rightarrow>
   nat \<Rightarrow> ProfilerRow list \<Rightarrow> 'p State \<Rightarrow> 'p Result" where
  "templateLoop cfg parseFloat clock invokingResource q parameters offset i [] st = Inr st"
| "templateLoop cfg parseFloat clock invokingResource q parameters offset i (row # rows) st =
     (case logQuery cfg invokingResource q (parseFloat (duration row))
             (index parameters (offset + int i)) (clock i) st of
        Inl e \<Rightarrow> Inl e
      | Inr st' \<Rightarrow>
          templateLoop cfg parseFloat clock invokingResource q parameters offset (Suc i) rows st')"

text \<open>The loop of lines 76 to 81, which leaves at the first missing transaction.\<close>

fun transactionLoop ::
  "Config \<Rightarrow> (jsstring \<Rightarrow> real) \<Rightarrow> (nat \<Rightarrow> int) \<Rightarrow> jsstring \<Rightarrow> 'p Transaction list \<Rightarrow> int \<Rightarrow>
   nat \<Rightarrow> ProfilerRow list \<Rightarrow> 'p State \<Rightarrow> 'p Result" where
  "transactionLoop cfg parseFloat clock invokingResource batch offset i [] st = Inr st"
| "transactionLoop cfg parseFloat clock invokingResource batch offset i (row # rows) st =
     (case index batch (offset + int i) of
        Some transaction \<Rightarrow>
          (case logQuery cfg invokingResource (tx_query transaction) (parseFloat (duration row))
                  (tx_params transaction) (clock i) st of
             Inl e \<Rightarrow> Inl e
           | Inr st' \<Rightarrow>
               transactionLoop cfg parseFloat clock invokingResource batch offset (Suc i) rows st')
      | None \<Rightarrow> Inr st)"

text \<open>
  \<open>profiler\<close> is the result of the \<open>SELECT\<close>; the statements sent to the connection
  do not touch the state of this module. An array is truthy, \<open>null\<close> is not.
\<close>

definition profileBatchStatements ::
  "Config \<Rightarrow> (jsstring \<Rightarrow> real) \<Rightarrow> (nat \<Rightarrow> int) \<Rightarrow> jsstring \<Rightarrow> 'p BatchQuery \<Rightarrow> 'p list option \<Rightarrow>
   int \<Rightarrow> ProfilerRow list \<Rightarrow> 'p State \<Rightarrow> 'p Result" where
  "profileBatchStatements cfg parseFloat clock invokingResource q parameters offset profiler st =
     (if length profiler = 0 then Inr st
      else
        (case (q, parameters) of
           (QueryString text, Some ps) \<Rightarrow>
             templateLoop cfg parseFloat clock invokingResource text ps offset 0 profiler st
         | (QueryString text, None) \<Rightarrow> Inr st
         | (QueryArray batch, _) \<Rightarrow>
             transactionLoop cfg parseFloat clock invokingResource batch offset 0 profiler st))"

subsection \<open>sortQueries\<close>

text \<open>
  The field \<open>id\<close> of a sort request is typed \<open>'query' | 'executionTime'\<close>; the
  \<open>default\<close> branch of the comparator takes any other value.
\<close>

datatype SortId = SortQuery | SortExecutionTime | SortOther

record SortSpec =
  sort_id :: SortId
  sort_desc :: bool

text \<open>The comparator handed to \<open>sort\<close> (lines 165 to 174).\<close>

definition compareFn :: "SortId \<Rightarrow> QueryData \<Rightarrow> QueryData \<Rightarrow> real" where
  "compareFn sid a b =
     (case sid of
        SortQuery \<Rightarrow> (if query b < query a then 1 else - 1)
      | SortExecutionTime \<Rightarrow> executionTime a - executionTime b
      | SortOther \<Rightarrow> 0)"

text \<open>
  \<open>arraySort\<close> stands for \<open>Array.prototype.sort\<close> on a copy of the array: the
  engine's algorithm is not part of this repository.
\<close>

type_synonym ArraySort = "(QueryData \<Rightarrow> QueryData \<Rightarrow> real) \<Rightarrow> QueryData list \<Rightarrow> QueryData list"

definition sortQueries :: "ArraySort \<Rightarrow> QueryData list \<Rightarrow> SortSpec \<Rightarrow> QueryData list" where
  "sortQueries arraySort qs sort' =
     (let sortedQueries = arraySort (compareFn (sort_id sort')) qs
      in if sort_desc sort' then rev sortedQueries else sortedQueries)"

text \<open>
  Two insertion sorts, to evaluate \<open>sortQueries\<close> on examples. Both sort, and both keep
  the order of elements that the comparator reports as equal (result \<open>0\<close>).
  \<open>insertLeft\<close> goes through the array from the left and compares the new element with
  the elements already placed, as a binary insertion sort does; \<open>insertRight\<close> goes
  through it from the right.
\<close>

fun insertLeft :: "('a \<Rightarrow> 'a \<Rightarrow> real) \<Rightarrow> 'a \<Rightarrow> 'a list \<Rightarrow> 'a list" where
  "insertLeft cmp x [] = [x]"
| "insertLeft cmp x (y # ys) = (if cmp x y < 0 then x # y # ys else y # insertLeft cmp x ys)"

definition sortLeft :: "('a \<Rightarrow> 'a \<Rightarrow> real) \<Rightarrow> 'a list \<Rightarrow> 'a list" where
  "sortLeft cmp xs = foldl (\<lambda>acc x. insertLeft cmp x acc) [] xs"

fun insertRight :: "('a \<Rightarrow> 'a \<Rightarrow> real) \<Rightarrow> 'a \<Rightarrow> 'a list \<Rightarrow> 'a list" where
  "insertRight cmp x [] = [x]"
| "insertRight cmp x (y # ys) = (if cmp x y \<le> 0 then x # y # ys else y # insertRight cmp x ys)"

definition sortRight :: "('a \<Rightarrow> 'a \<Rightarrow> real) \<Rightarrow> 'a list \<Rightarrow> 'a list" where
  "sortRight cmp xs = foldr (insertRight cmp) xs []"

subsection \<open>The handler of oxmysql:fetchResource\<close>

text \<open>
  \<open>resource\<close> is \<open>None\<close> when the payload's field is not a string; an absent
  \<open>sortBy\<close> is \<open>None\<close>; an absent \<open>search\<close> is the empty string, which is falsy as
  well.
\<close>

record ViewRequest =
  resource :: "jsstring option"
  pageIndex :: int
  search :: jsstring
  sortBy :: "SortSpec list option"

record ViewResponse =
  queries :: "QueryData list"
  pageCount :: int
  resourceQueriesCount :: nat
  resourceSlowQueries :: nat
  resourceTime :: real

text \<open>\<open>s.includes(pat)\<close>: \<open>pat\<close> occurs in \<open>s\<close>.\<close>

fun startsWith :: "jsstring \<Rightarrow> jsstring \<Rightarrow> bool" where
  "startsWith s [] = True"
| "startsWith [] (p # ps) = False"
| "startsWith (c # cs) (p # ps) = (c = p \<and> startsWith cs ps)"

fun includesStr :: "jsstring \<Rightarrow> jsstring \<Rightarrow> bool" where
  "includesStr [] pat = startsWith [] pat"
| "includesStr (c # cs) pat = (startsWith (c # cs) pat \<or> includesStr cs pat)"

text \<open>
  \<open>xs.slice(start, end)\<close> with integral arguments: a negative index counts from the end
  of the array, and both are clamped to the array.
\<close>

definition slice :: "'a list \<Rightarrow> int \<Rightarrow> int \<Rightarrow> 'a list" where
  "slice xs start end' =
     (let len = int (length xs);
          k = (if start < 0 then max (len + start) 0 else min start len);
          final = (if end' < 0 then max (len + end') 0 else min end' len)
      in take (nat (final - k)) (drop (nat k) xs))"

text \<open>The loop of lines 207 to 212: the sum of the times and the number of slow records.\<close>

definition aggregate :: "QueryData list \<Rightarrow> real \<times> nat" where
  "aggregate resourceLog =
     foldl (\<lambda>(resourceTime, resourceSlowQueries) q.
              (resourceTime + executionTime q,
               if slow q = Some True then resourceSlowQueries + 1 else resourceSlowQueries))
       (0, 0) resourceLog"

text \<open>
  The handler. \<open>toLowerCase\<close> is \<open>String.prototype.toLowerCase\<close>, \<open>allowed\<close> is the
  answer of \<open>IsPlayerAceAllowed\<close>. The result is \<open>Inl TypeError\<close> when the handler throws,
  \<open>Inr None\<close> when it returns without sending anything, and \<open>Inr (Some r)\<close> when it
  sends \<open>r\<close> with \<open>oxmysql:loadResource\<close>.

  When \<open>logStorage[data.resource]\<close> is \<open>undefined\<close> or an inherited property,
  \<open>filter\<close> (line 192), the spread in \<open>sortQueries\<close> (line 165) and \<open>slice\<close>
  (line 198) each throw a TypeError. The test \<open>if (!queries) return\<close> of line 201 is never
  taken, since \<open>slice\<close> returns an array and every array is truthy.
\<close>

definition fetchResource ::
  "(jsstring \<Rightarrow> jsstring) \<Rightarrow> ArraySort \<Rightarrow> bool \<Rightarrow> ViewRequest \<Rightarrow> 'p State \<Rightarrow>
   error + ViewResponse option" where
  "fetchResource toLowerCase arraySort allowed data st =
     (case resource data of
        None \<Rightarrow> Inr None
      | Some r \<Rightarrow>
          if \<not> allowed then Inr None
          else
            let search' = (if search data \<noteq> [] then toLowerCase (search data) else search data)
            in
              (case (if search' \<noteq> []
                     then (case getProperty (logStorage st) r of
                             Own xs \<Rightarrow>
                               Inr (Own (filter (\<lambda>q. includesStr (toLowerCase (query q)) search') xs))
                           | Undefined \<Rightarrow> Inl TypeError
                           | Inherited \<Rightarrow> Inl TypeError)
                     else Inr (getProperty (logStorage st) r)) of
                 Inl e \<Rightarrow> Inl e
               | Inr resourceLog \<Rightarrow>
                   let sort' = (case sortBy data of
                                  None \<Rightarrow> None
                                | Some [] \<Rightarrow> None
                                | Some (s # _) \<Rightarrow> Some s);
                       startRow = pageIndex data * 10;
                       endRow = startRow + 10
                   in
                     (case resourceLog of
                        Undefined \<Rightarrow> Inl TypeError
                      | Inherited \<Rightarrow> Inl TypeError
                      | Own rl \<Rightarrow>
                          let queries' =
                                (case sort' of
                                   Some s \<Rightarrow> slice (sortQueries arraySort rl s) startRow endRow
                                 | None \<Rightarrow> slice rl startRow endRow);
                              pageCount' = \<lceil>real (length rl) / 10\<rceil>;
                              resourceQueriesCount' = length rl;
                              (resourceTime', resourceSlowQueries') = aggregate rl
                          in Inr (Some \<lparr>queries = queries',
                                        pageCount = pageCount',
                                        resourceQueriesCount = resourceQueriesCount',
                                        resourceSlowQueries = resourceSlowQueries',
                                        resourceTime = resourceTime'\<rparr>))))"

subsection \<open>logError\<close>

text \<open>
  The regular expression of line 15 is
  \<^verbatim>\<open>/SCRIPT ERROR: citizen:[\w\/\.]+:\d+[:\s]+/\<close>.
  It has no flag, so it matches code units, \<^verbatim>\<open>\w\<close> is
  \<^verbatim>\<open>[A-Za-z0-9_]\<close> and \<^verbatim>\<open>\d\<close> is \<^verbatim>\<open>[0-9]\<close>.
  \<^verbatim>\<open>\s\<close> is the white space and the line terminators of ECMAScript: TAB, LF, VT,
  FF, CR, SP, U+00A0, U+1680, U+2000 to U+200A, U+2028, U+2029, U+202F, U+205F, U+3000 and
  U+FEFF.
\<close>

definition isWordChar :: "nat \<Rightarrow> bool" where
  "isWordChar c =
     ((97 \<le> c \<and> c \<le> 122) \<or> (65 \<le> c \<and> c \<le> 90) \<or> (48 \<le> c \<and> c \<le> 57) \<or> c = 95)"

definition isPathChar :: "nat \<Rightarrow> bool" where
  "isPathChar c = (isWordChar c \<or> c = 47 \<or> c = 46)"

definition isDigit :: "nat \<Rightarrow> bool" where
  "isDigit c = (48 \<le> c \<and> c \<le> 57)"

definition isSpace :: "nat \<Rightarrow> bool" where
  "isSpace c =
     ((9 \<le> c \<and> c \<le> 13) \<or> c = 32 \<or> c = 160 \<or> c = 5760 \<or> (8192 \<le> c \<and> c \<le> 8202) \<or>
      c = 8232 \<or> c = 8233 \<or> c = 8239 \<or> c = 8287 \<or> c = 12288 \<or> c = 65279)"

definition isSeparator :: "nat \<Rightarrow> bool" where
  "isSeparator c = (c = 58 \<or> isSpace c)"

text \<open>\<open>stripLiteral lit s\<close> is what follows \<open>lit\<close> in \<open>s\<close>, when \<open>s\<close> begins with it.\<close>

fun stripLiteral :: "jsstring \<Rightarrow> jsstring \<Rightarrow> jsstring option" where
  "stripLiteral [] s = Some s"
| "stripLiteral (p # ps) [] = None"
| "stripLiteral (p # ps) (c # cs) = (if p = c then stripLiteral ps cs else None)"

text \<open>
  A match of the expression at the beginning of \<open>s\<close>; the result is the rest of \<open>s\<close>
  after the match. Each \<^verbatim>\<open>+\<close> is greedy, and no shorter repetition can match:
  the character that has to follow a class is outside of it. The code unit 58 is the
  colon.
\<close>

definition matchScriptError :: "jsstring \<Rightarrow> jsstring option" where
  "matchScriptError s =
     (case stripLiteral (js ''SCRIPT ERROR: citizen:'') s of
        None \<Rightarrow> None
      | Some s1 \<Rightarrow>
          if takeWhile isPathChar s1 = [] then None
          else
            (case dropWhile isPathChar s1 of
               [] \<Rightarrow> None
             | c # s2 \<Rightarrow>
                 if c \<noteq> 58 then None
                 else if takeWhile isDigit s2 = [] then None
                 else if takeWhile isSeparator (dropWhile isDigit s2) = [] then None
                 else Some (dropWhile isSeparator (dropWhile isDigit s2))))"

text \<open>
  \<open>err.replace(re, '')\<close> with an expression without the flag \<open>g\<close>: the leftmost match
  is removed, and a string without a match is returned as it is.
\<close>

fun replaceScriptError :: "jsstring \<Rightarrow> jsstring" where
  "replaceScriptError [] = []"
| "replaceScriptError (c # cs) =
     (case matchScriptError (c # cs) of
        Some rest \<Rightarrow> rest
      | None \<Rightarrow> c # replaceScriptError cs)"

text \<open>\<open>err\<close> is an \<open>Error\<close>, of which only the message is read, or a string.\<close>

datatype Err = ErrorObject jsstring | ErrorString jsstring

record 'p ErrorEvent =
  ev_query :: "jsstring option"
  ev_parameters :: "'p option"
  ev_message :: jsstring
  ev_err :: Err
  ev_resource :: jsstring

text \<open>Where the text goes: to the callback, or to \<open>console.error\<close>.\<close>

datatype Delivery = ToCallback jsstring | ToConsole jsstring

text \<open>
  \<open>logError\<close> returns the payload of the event \<open>oxmysql:error\<close> and the text it
  delivers. \<open>stringify\<close> is \<open>JSON.stringify\<close>; \<open>hasCb\<close> says that a callback was
  given. An absent or empty \<open>query\<close> is falsy. The code unit 10 is the line feed.
\<close>

definition logError ::
  "('p option \<Rightarrow> jsstring) \<Rightarrow> jsstring \<Rightarrow> bool \<Rightarrow> bool \<Rightarrow> Err \<Rightarrow> jsstring option \<Rightarrow> 'p option \<Rightarrow> bool \<Rightarrow>
   'p ErrorEvent \<times> Delivery" where
  "logError stringify invokingResource hasCb isPromise err q parameters includeParameters =
     (let message = (case err of ErrorObject m \<Rightarrow> m | ErrorString s \<Rightarrow> replaceScriptError s);
          output = invokingResource @ js '' was unable to execute a query!'' @
                   (case q of
                      None \<Rightarrow> []
                    | Some text \<Rightarrow> if text = [] then [] else 10 # js ''Query: '' @ text) @
                   (if includeParameters then 10 # stringify parameters else []) @
                   10 # message;
          event = \<lparr>ev_query = q, ev_parameters = parameters, ev_message = message,
                   ev_err = err, ev_resource = invokingResource\<rparr>
      in (event, if hasCb \<and> isPromise then ToCallback output else ToConsole output))"

text \<open>
  The strings that the regular expression of line 15 matches, written from the
  expression: the literal, a path, a colon, a line number, and colons or white space.
\<close>

definition isScriptLocationPrefix :: "jsstring \<Rightarrow> bool" where
  "isScriptLocationPrefix m =
     (\<exists>path line sep.
        m = js ''SCRIPT ERROR: citizen:'' @ path @ [58] @ line @ sep \<and>
        path \<noteq> [] \<and> list_all isPathChar path \<and>
        line \<noteq> [] \<and> list_all isDigit line \<and>
        sep \<noteq> [] \<and> list_all isSeparator sep)"

section \<open>Properties\<close>

subsection \<open>The log store\<close>

text \<open>The log of a resource, empty when the resource has none.\<close>

abbreviation logOf :: "'p State \<Rightarrow> jsstring \<Rightarrow> QueryData list" where
  "logOf st r \<equiv> (case logStorage st r of None \<Rightarrow> [] | Some xs \<Rightarrow> xs)"

lemma getProperty_plain:
  "\<not> List.member objectPrototypeKeys r \<Longrightarrow>
   getProperty m r = (case m r of Some v \<Rightarrow> Own v | None \<Rightarrow> Undefined)"
  by (simp add: getProperty_def)

text \<open>
  For the name of a property of \<open>Object.prototype\<close>, with the dashboard enabled and no own
  property of that name, \<open>logQuery\<close> throws and stores nothing.
\<close>

lemma logQuery_inherited_key_throws:
  "mysql_ui cfg \<Longrightarrow> List.member objectPrototypeKeys r \<Longrightarrow> logStorage st r = None \<Longrightarrow>
   \<exists>st'. logQuery cfg r q t p now st = Inl (TypeError, st') \<and> logStorage st' = logStorage st"
  by (simp add: logQuery_def Let_def getProperty_def)

text \<open>One call, for any other resource name.\<close>

lemma logQuery_result:
  assumes "\<not> List.member objectPrototypeKeys r"
  shows "\<exists>st'. logQuery cfg r q t p now st = Inr st' \<and>
           console st' = console st @ (if shouldPrint cfg r t then [consoleLine r t q p] else []) \<and>
           logStorage st' =
             (if mysql_ui cfg
              then (logStorage st)(r \<mapsto>
                     (if mysql_log_size cfg < int (length (logOf st r)) then tl (logOf st r)
                      else logOf st r) @ [queryData cfg q t now])
              else logStorage st)"
  using assms
  by (cases "logStorage st r") (simp_all add: logQuery_def Let_def getProperty_plain)

text \<open>
  Evicting before the push, as line 115 does, \<open>n\<close> times: of the old records and the
  \<open>n\<close> new ones, the first \<open>n - (c + 1 - length old)\<close> are gone.
\<close>

lemma evict_push_closed_form:
  "foldl (\<lambda>xs e. (if c < int (length xs) then tl xs else xs) @ [e]) old es =
     drop (length es - (nat c + 1 - length old)) (old @ es)"
proof (induction es arbitrary: old)
  case Nil
  show ?case by simp
next
  case (Cons e es)
  let ?m = "nat c + 1"
  let ?old' = "(if c < int (length old) then tl old else old) @ [e]"
  have IH: "foldl (\<lambda>xs e. (if c < int (length xs) then tl xs else xs) @ [e]) ?old' es =
              drop (length es - (?m - length ?old')) (?old' @ es)"
    by (rule Cons.IH)
  show ?case
  proof (cases "?m \<le> length old")
    case True
    then have ne: "old \<noteq> []" by auto
    from True have c: "c < int (length old)" by arith
    have len: "length ?old' = length old" using c ne by simp
    have "drop (length es - (?m - length ?old')) (?old' @ es) = drop (length es) (tl old @ e # es)"
      using True c len by simp
    also have "\<dots> = drop (Suc (length es)) (old @ e # es)"
      using ne by (cases old) simp_all
    finally show ?thesis using IH True by simp
  next
    case False
    have eq: "?old' = old @ [e]"
    proof (cases "c < int (length old)")
      case True
      with False have "length old = 0" by arith
      then show ?thesis by simp
    next
      case False
      then show ?thesis by simp
    qed
    have "length es - (?m - length (old @ [e])) = Suc (length es) - (?m - length old)"
      using False by simp
    then show ?thesis using IH eq by simp
  qed
qed

lemma logQueries_same_resource_fold:
  assumes "\<not> List.member objectPrototypeKeys r"
  shows "list_all (\<lambda>c. fst c = r) calls \<Longrightarrow>
         \<exists>st'. logQueries cfg calls st = Inr st' \<and>
           console st' = console st @
             map (\<lambda>(r, q, t, p, now). consoleLine r t q p)
               (filter (\<lambda>(r, q, t, p, now). shouldPrint cfg r t) calls) \<and>
           logStorage st' =
             (if mysql_ui cfg \<and> calls \<noteq> []
              then (logStorage st)(r \<mapsto>
                     foldl (\<lambda>xs e. (if mysql_log_size cfg < int (length xs) then tl xs else xs) @ [e])
                       (logOf st r) (map (\<lambda>(r, q, t, p, now). queryData cfg q t now) calls))
              else logStorage st)"
proof (induction calls arbitrary: st)
  case Nil
  show ?case by simp
next
  case (Cons c calls)
  obtain r' q t p now where c: "c = (r', q, t, p, now)" by (cases c) auto
  from Cons.prems c have r': "r' = r" and rest: "list_all (\<lambda>c. fst c = r) calls" by simp_all
  from logQuery_result[OF assms, of cfg q t p now st]
  obtain st1 where st1: "logQuery cfg r q t p now st = Inr st1"
    and con1: "console st1 = console st @ (if shouldPrint cfg r t then [consoleLine r t q p] else [])"
    and log1: "logStorage st1 =
             (if mysql_ui cfg
              then (logStorage st)(r \<mapsto>
                     (if mysql_log_size cfg < int (length (logOf st r)) then tl (logOf st r)
                      else logOf st r) @ [queryData cfg q t now])
              else logStorage st)"
    by blast
  from Cons.IH[OF rest, of st1]
  obtain st' where st': "logQueries cfg calls st1 = Inr st'"
    and con': "console st' = console st1 @
             map (\<lambda>(r, q, t, p, now). consoleLine r t q p)
               (filter (\<lambda>(r, q, t, p, now). shouldPrint cfg r t) calls)"
    and log': "logStorage st' =
             (if mysql_ui cfg \<and> calls \<noteq> []
              then (logStorage st1)(r \<mapsto>
                     foldl (\<lambda>xs e. (if mysql_log_size cfg < int (length xs) then tl xs else xs) @ [e])
                       (logOf st1 r) (map (\<lambda>(r, q, t, p, now). queryData cfg q t now) calls))
              else logStorage st1)"
    by blast
  have res: "logQueries cfg (c # calls) st = Inr st'"
    using c r' st1 st' by simp
  have con: "console st' = console st @
             map (\<lambda>(r, q, t, p, now). consoleLine r t q p)
               (filter (\<lambda>(r, q, t, p, now). shouldPrint cfg r t) (c # calls))"
    using con' con1 c r' by simp
  have log: "logStorage st' =
             (if mysql_ui cfg \<and> c # calls \<noteq> []
              then (logStorage st)(r \<mapsto>
                     foldl (\<lambda>xs e. (if mysql_log_size cfg < int (length xs) then tl xs else xs) @ [e])
                       (logOf st r) (map (\<lambda>(r, q, t, p, now). queryData cfg q t now) (c # calls)))
              else logStorage st)"
    using log' log1 c r' by (cases "calls = []") simp_all
  from res con log show ?case by blast
qed

text \<open>
  What a sequence of calls for one resource leaves: one console line per call that is slow
  or debugged, and, with the dashboard enabled, one new record per call behind the old
  ones, of which the oldest are evicted. A log that starts empty settles at
  \<open>mysql_log_size + 1\<close> records: the test of line 115 is made before the \<open>push\<close> and
  with \<^verbatim>\<open>>\<close>, so a log of exactly \<open>mysql_log_size\<close> records still grows by one.
\<close>

lemma logQueries_same_resource:
  assumes "\<not> List.member objectPrototypeKeys r" and "list_all (\<lambda>c. fst c = r) calls"
  shows "\<exists>st'. logQueries cfg calls st = Inr st' \<and>
           console st' = console st @
             map (\<lambda>(r, q, t, p, now). consoleLine r t q p)
               (filter (\<lambda>(r, q, t, p, now). shouldPrint cfg r t) calls) \<and>
           logStorage st' =
             (if mysql_ui cfg \<and> calls \<noteq> []
              then (logStorage st)(r \<mapsto>
                     drop (length calls - (nat (mysql_log_size cfg) + 1 - length (logOf st r)))
                       (logOf st r @ map (\<lambda>(r, q, t, p, now). queryData cfg q t now) calls))
              else logStorage st)"
proof -
  have cf: "foldl (\<lambda>xs e. (if mysql_log_size cfg < int (length xs) then tl xs else xs) @ [e])
              (logOf st r) (map (\<lambda>(r, q, t, p, now). queryData cfg q t now) calls) =
            drop (length calls - (nat (mysql_log_size cfg) + 1 - length (logOf st r)))
              (logOf st r @ map (\<lambda>(r, q, t, p, now). queryData cfg q t now) calls)"
    by (simp only: evict_push_closed_form length_map)
  show ?thesis
    using logQueries_same_resource_fold[OF assms, of cfg st] unfolding cf .
qed

text \<open>The same for calls made from a list \<open>xs\<close>, one call for each element.\<close>

lemma logQueries_map:
  assumes "\<not> List.member objectPrototypeKeys r"
  shows "\<exists>st'. logQueries cfg (map (\<lambda>x. (r, qf x, tf x, pf x, nf x)) xs) st = Inr st' \<and>
           console st' = console st @
             map (\<lambda>x. consoleLine r (tf x) (qf x) (pf x))
               (filter (\<lambda>x. shouldPrint cfg r (tf x)) xs) \<and>
           logStorage st' =
             (if mysql_ui cfg \<and> xs \<noteq> []
              then (logStorage st)(r \<mapsto>
                     drop (length xs - (nat (mysql_log_size cfg) + 1 - length (logOf st r)))
                       (logOf st r @ map (\<lambda>x. queryData cfg (qf x) (tf x) (nf x)) xs))
              else logStorage st)"
proof -
  let ?calls = "map (\<lambda>x. (r, qf x, tf x, pf x, nf x)) xs"
  have same: "list_all (\<lambda>c. fst c = r) ?calls"
    by (simp add: list_all_iff)
  have e1: "map (\<lambda>(r, q, t, p, now). consoleLine r t q p)
              (filter (\<lambda>(r, q, t, p, now). shouldPrint cfg r t) ?calls) =
            map (\<lambda>x. consoleLine r (tf x) (qf x) (pf x))
              (filter (\<lambda>x. shouldPrint cfg r (tf x)) xs)"
    by (simp add: filter_map comp_def)
  have e2: "map (\<lambda>(r, q, t, p, now). queryData cfg q t now) ?calls =
            map (\<lambda>x. queryData cfg (qf x) (tf x) (nf x)) xs"
    by (simp add: comp_def)
  have e3: "length ?calls = length xs" by simp
  have e4: "(?calls \<noteq> []) = (xs \<noteq> [])" by simp
  show ?thesis
    using logQueries_same_resource[OF assms same, of cfg st]
    unfolding e1 e2 e3 e4 .
qed

text \<open>
  Claim C1: after \<open>N\<close> appends to one resource with capacity \<open>C\<close> the log has length
  \<open>min N C\<close> and holds the last \<open>min N C\<close> records. The code does not keep this bound:
  with \<open>mysql_log_size = 2\<close> and the dashboard enabled, three calls of \<open>logQuery\<close> for
  one resource leave three records in its log, and a fourth call leaves the last three.
\<close>

theorem logQuery_log_exceeds_log_size:
  "(\<exists>st'. logQueries
        \<lparr>mysql_debug = DebugFlag False, mysql_log_size = 2,
          mysql_slow_query_warning = 200, mysql_ui = True\<rparr>
        [(js ''res'', js ''q1'', 1, None, 10), (js ''res'', js ''q2'', 2, None, 11),
         (js ''res'', js ''q3'', 3, None, 12)]
        (\<lparr>logStorage = Map.empty, console = []\<rparr> :: unit State) = Inr st' \<and>
      logStorage st' (js ''res'') =
        Some [\<lparr>date = 10, query = js ''q1'', executionTime = 1, slow = None\<rparr>,
              \<lparr>date = 11, query = js ''q2'', executionTime = 2, slow = None\<rparr>,
              \<lparr>date = 12, query = js ''q3'', executionTime = 3, slow = None\<rparr>]) \<and>
   (\<exists>st'. logQueries
        \<lparr>mysql_debug = DebugFlag False, mysql_log_size = 2,
          mysql_slow_query_warning = 200, mysql_ui = True\<rparr>
        [(js ''res'', js ''q1'', 1, None, 10), (js ''res'', js ''q2'', 2, None, 11),
         (js ''res'', js ''q3'', 3, None, 12), (js ''res'', js ''q4'', 4, None, 13)]
        (\<lparr>logStorage = Map.empty, console = []\<rparr> :: unit State) = Inr st' \<and>
      logStorage st' (js ''res'') =
        Some [\<lparr>date = 11, query = js ''q2'', executionTime = 2, slow = None\<rparr>,
              \<lparr>date = 12, query = js ''q3'', executionTime = 3, slow = None\<rparr>,
              \<lparr>date = 13, query = js ''q4'', executionTime = 4, slow = None\<rparr>])"
  by (simp add: logQuery_def getProperty_def objectPrototypeKeys_def js_def)

text \<open>
  Claim C10: with the dashboard disabled (\<open>mysql_ui\<close> false), \<open>logQuery\<close> leaves the
  log store as it was, for one call and for any sequence of calls; it returns before it
  reads the store, so it does not throw either.
\<close>

theorem logQuery_ui_disabled_keeps_store:
  "\<not> mysql_ui cfg \<Longrightarrow>
   (\<exists>st'. logQuery cfg r q t p now st = Inr st' \<and> logStorage st' = logStorage st) \<and>
   (\<exists>st'. logQueries cfg calls st = Inr st' \<and> logStorage st' = logStorage st)"
proof (induction calls arbitrary: st)
  case Nil
  then show ?case by (simp add: logQuery_def Let_def)
next
  case (Cons c calls)
  obtain r' q' t' p' now' where c: "c = (r', q', t', p', now')" by (cases c) auto
  from Cons.prems obtain st1 where st1: "logQuery cfg r' q' t' p' now' st = Inr st1"
    and l1: "logStorage st1 = logStorage st"
    by (auto simp: logQuery_def Let_def)
  from Cons.IH[OF Cons.prems, of st1] obtain st' where
    "logQueries cfg calls st1 = Inr st'" "logStorage st' = logStorage st1"
    by blast
  then have "\<exists>st'. logQueries cfg (c # calls) st = Inr st' \<and> logStorage st' = logStorage st"
    using c st1 l1 by simp
  moreover have "\<exists>st'. logQuery cfg r q t p now st = Inr st' \<and> logStorage st' = logStorage st"
    using Cons.prems by (simp add: logQuery_def Let_def)
  ultimately show ?case by blast
qed

theorem logQuery_ui_disabled_keeps_store_witness:
  "\<not> mysql_ui \<lparr>mysql_debug = DebugFlag True, mysql_log_size = 100,
                mysql_slow_query_warning = 200, mysql_ui = False\<rparr> \<and>
   (\<exists>st'. logQueries
        \<lparr>mysql_debug = DebugFlag True, mysql_log_size = 100,
          mysql_slow_query_warning = 200, mysql_ui = False\<rparr>
        [(js ''res'', js ''q1'', 1, None, 10), (js ''res'', js ''q2'', 250, Some (), 11)]
        \<lparr>logStorage = Map.empty, console = []\<rparr> = Inr st' \<and>
      logStorage st' = Map.empty)"
proof -
  have h: "\<not> mysql_ui \<lparr>mysql_debug = DebugFlag True, mysql_log_size = 100,
                mysql_slow_query_warning = 200, mysql_ui = False\<rparr>"
    by simp
  show ?thesis
    using h logQuery_ui_disabled_keeps_store
      [OF h, of "js ''res''" "js ''q1''" 1 None 10 "\<lparr>logStorage = Map.empty, console = []\<rparr>"
         "[(js ''res'', js ''q1'', 1, None, 10), (js ''res'', js ''q2'', 250, Some (), 11)]"]
    by simp
qed

text \<open>
  Claim C8: a recorded query is marked slow if and only if its execution time is at least
  the threshold \<open>mysql_slow_query_warning\<close>; a time equal to the threshold is slow. With
  the dashboard enabled, and for a resource whose name is not that of a property of
  \<open>Object.prototype\<close>, \<open>logQuery\<close> returns, the record it appends is the last of the
  log, and its field \<open>slow\<close> is \<open>true\<close> in that case and \<open>undefined\<close> otherwise.
\<close>

theorem logQuery_slow_iff_threshold:
  "mysql_ui cfg \<Longrightarrow> \<not> List.member objectPrototypeKeys r \<Longrightarrow>
   (\<exists>st' xs. logQuery cfg r q t p now st = Inr st' \<and>
      logStorage st' r = Some xs \<and> xs \<noteq> [] \<and>
      query (last xs) = q \<and> executionTime (last xs) = t \<and>
      (slow (last xs) = Some True \<longleftrightarrow> mysql_slow_query_warning cfg \<le> t) \<and>
      (slow (last xs) = None \<longleftrightarrow> t < mysql_slow_query_warning cfg))"
  by (cases "logStorage st r")
     (simp_all add: logQuery_def Let_def getProperty_plain not_le)

theorem logQuery_slow_iff_threshold_witness:
  "mysql_ui \<lparr>mysql_debug = DebugFlag False, mysql_log_size = 100,
             mysql_slow_query_warning = 200, mysql_ui = True\<rparr> \<and>
   \<not> List.member objectPrototypeKeys (js ''res'') \<and>
   (\<exists>st' xs. logQuery \<lparr>mysql_debug = DebugFlag False, mysql_log_size = 100,
                        mysql_slow_query_warning = 200, mysql_ui = True\<rparr>
              (js ''res'') (js ''q'') 200 (None :: unit option) 10
              \<lparr>logStorage = Map.empty, console = []\<rparr> = Inr st' \<and>
         logStorage st' (js ''res'') = Some xs \<and> slow (last xs) = Some True)"
proof -
  have h1: "mysql_ui \<lparr>mysql_debug = DebugFlag False, mysql_log_size = 100,
             mysql_slow_query_warning = 200, mysql_ui = True\<rparr>"
    by simp
  have h2: "\<not> List.member objectPrototypeKeys (js ''res'')"
    by (simp add: objectPrototypeKeys_def js_def)
  show ?thesis
    using h1 h2 logQuery_slow_iff_threshold
      [OF h1 h2, of "js ''q''" 200 "None :: unit option" 10
         "\<lparr>logStorage = Map.empty, console = []\<rparr>"]
    by auto
qed

subsection \<open>The correlation of profiler rows\<close>

text \<open>Each loop is a sequence of calls of \<open>logQuery\<close>, one per row it visits.\<close>

lemma templateLoop_logQueries:
  "templateLoop cfg pf clock r text ps off i rows st =
     logQueries cfg
       (map (\<lambda>(j, row). (r, text, pf (duration row), index ps (off + int j), clock j))
          (List.enumerate i rows)) st"
  by (induction rows arbitrary: i st) (simp_all split: sum.splits)

lemma transactionLoop_logQueries:
  "k \<le> length rows \<Longrightarrow>
   (k < length rows \<Longrightarrow> index batch (off + int (i + k)) = None) \<Longrightarrow>
   (\<And>j. j < k \<Longrightarrow> index batch (off + int (i + j)) \<noteq> None) \<Longrightarrow>
   transactionLoop cfg pf clock r batch off i rows st =
     logQueries cfg
       (map (\<lambda>(j, row). (r, tx_query (batch ! nat (off + int j)), pf (duration row),
                          tx_params (batch ! nat (off + int j)), clock j))
          (List.enumerate i (take k rows))) st"
proof (induction rows arbitrary: i k st)
  case Nil
  then show ?case by simp
next
  case (Cons row rows)
  show ?case
  proof (cases k)
    case 0
    with Cons.prems(2) show ?thesis by simp
  next
    case (Suc k')
    from Cons.prems(3)[of 0] Suc obtain tx where tx: "index batch (off + int i) = Some tx"
      by auto
    then have txeq: "tx = batch ! nat (off + int i)"
      by (auto simp: index_def split: if_splits)
    have a: "k' \<le> length rows" using Cons.prems(1) Suc by simp
    have b: "k' < length rows \<Longrightarrow> index batch (off + int (Suc i + k')) = None"
      using Cons.prems(2) Suc by simp
    have c: "\<And>j. j < k' \<Longrightarrow> index batch (off + int (Suc i + j)) \<noteq> None"
      using Cons.prems(3)[of "Suc _"] Suc by simp
    show ?thesis
      using Cons.IH[OF a b c] tx txeq Suc by (simp split: sum.splits)
  qed
qed

lemma index_map: "index (map f xs) k = map_option f (index xs k)"
  by (auto simp: index_def)

lemma transactionLoop_as_templateLoop:
  "k \<le> length rows \<Longrightarrow>
   (k < length rows \<Longrightarrow> index ps (off + int (i + k)) = None) \<Longrightarrow>
   (\<And>j. j < k \<Longrightarrow> index ps (off + int (i + j)) \<noteq> None) \<Longrightarrow>
   transactionLoop cfg pf clock r (map (\<lambda>p. \<lparr>tx_query = text, tx_params = Some p\<rparr>) ps) off i rows st =
     templateLoop cfg pf clock r text ps off i (take k rows) st"
proof (induction rows arbitrary: i k st)
  case Nil
  then show ?case by simp
next
  case (Cons row rows)
  show ?case
  proof (cases k)
    case 0
    with Cons.prems(2) show ?thesis by (simp add: index_map)
  next
    case (Suc k')
    from Cons.prems(3)[of 0] Suc obtain p where p: "index ps (off + int i) = Some p"
      by auto
    then have tx: "index (map (\<lambda>p. \<lparr>tx_query = text, tx_params = Some p\<rparr>) ps) (off + int i) =
                     Some \<lparr>tx_query = text, tx_params = Some p\<rparr>"
      by (simp add: index_map)
    have a: "k' \<le> length rows" using Cons.prems(1) Suc by simp
    have b: "k' < length rows \<Longrightarrow> index ps (off + int (Suc i + k')) = None"
      using Cons.prems(2) Suc by simp
    have c: "\<And>j. j < k' \<Longrightarrow> index ps (off + int (Suc i + j)) \<noteq> None"
      using Cons.prems(3)[of "Suc _"] Suc by simp
    show ?thesis
      using Cons.IH[OF a b c] tx p Suc by (simp split: sum.splits)
  qed
qed

lemma profileBatchStatements_template:
  "profileBatchStatements cfg pf clock r (QueryString text) (Some ps) off rows st =
     templateLoop cfg pf clock r text ps off 0 rows st"
  by (cases rows) (simp_all add: profileBatchStatements_def)

text \<open>
  Claim C5: in the heterogeneous form, when row \<open>k\<close> is the first row without a batch entry
  at \<open>offset + k\<close>, the correlation stops there without an error. For a resource whose
  name is not that of a property of \<open>Object.prototype\<close>, the function returns, and what
  it leaves is one entry for each of the rows before \<open>k\<close> and none for row \<open>k\<close> and the
  rows after it: the console has one more line for each of the first \<open>k\<close> rows that is
  slow or debugged, and, with the dashboard enabled, the log of the resource has one more
  record for each of the first \<open>k\<close> rows, with the query of the row's batch entry and the
  time of the row, the oldest records being evicted as \<open>logQuery\<close> does.
\<close>

theorem profileBatchStatements_stops_at_missing_entry:
  assumes "\<not> List.member objectPrototypeKeys r"
    and "k < length profiler"
    and "index batch (offset + int k) = None"
    and "\<forall>j<k. index batch (offset + int j) \<noteq> None"
  shows "\<exists>st'. profileBatchStatements cfg parseFloat clock r (QueryArray batch) parameters offset
                 profiler st = Inr st' \<and>
           console st' = console st @
             map (\<lambda>(i, row). consoleLine r (parseFloat (duration row))
                                (tx_query (batch ! nat (offset + int i)))
                                (tx_params (batch ! nat (offset + int i))))
               (filter (\<lambda>(i, row). shouldPrint cfg r (parseFloat (duration row)))
                  (List.enumerate 0 (take k profiler))) \<and>
           logStorage st' =
             (if mysql_ui cfg \<and> 0 < k
              then (logStorage st)(r \<mapsto>
                     drop (k - (nat (mysql_log_size cfg) + 1 - length (logOf st r)))
                       (logOf st r @
                        map (\<lambda>(i, row). queryData cfg (tx_query (batch ! nat (offset + int i)))
                                           (parseFloat (duration row)) (clock i))
                          (List.enumerate 0 (take k profiler))))
              else logStorage st)"
proof -
  let ?rows = "List.enumerate 0 (take k profiler)"
  let ?qf = "\<lambda>x. tx_query (batch ! nat (offset + int (fst x)))"
  let ?tf = "\<lambda>x. parseFloat (duration (snd x))"
  let ?pf = "\<lambda>x. tx_params (batch ! nat (offset + int (fst x)))"
  let ?nf = "\<lambda>x. clock (fst x)"
  have loop: "transactionLoop cfg parseFloat clock r batch offset 0 profiler st =
                logQueries cfg (map (\<lambda>x. (r, ?qf x, ?tf x, ?pf x, ?nf x)) ?rows) st"
    using transactionLoop_logQueries[of k profiler batch offset 0 cfg parseFloat clock r st]
      assms(2,3,4)
    by (simp add: case_prod_unfold)
  have ne: "profiler \<noteq> []" using assms(2) by auto
  have run: "profileBatchStatements cfg parseFloat clock r (QueryArray batch) parameters offset
               profiler st = logQueries cfg (map (\<lambda>x. (r, ?qf x, ?tf x, ?pf x, ?nf x)) ?rows) st"
    using loop ne by (simp add: profileBatchStatements_def)
  have len: "length ?rows = k" using assms(2) by simp
  have emp: "(?rows \<noteq> []) = (0 < k)" using len by (cases "?rows") auto
  show ?thesis
    using logQueries_map[OF assms(1), of cfg ?qf ?tf ?pf ?nf ?rows st]
    unfolding run len emp case_prod_unfold .
qed

theorem profileBatchStatements_stops_at_missing_entry_witness:
  "\<exists>st'. profileBatchStatements
            \<lparr>mysql_debug = DebugFlag True, mysql_log_size = 100,
              mysql_slow_query_warning = 200, mysql_ui = True\<rparr>
            (\<lambda>s. if s = js ''2.0000'' then 2 else 3) (\<lambda>i. 1000 + int i) (js ''res'')
            (QueryArray [\<lparr>tx_query = js ''INSERT a'', tx_params = Some (1::nat)\<rparr>,
                         \<lparr>tx_query = js ''INSERT b'', tx_params = None\<rparr>])
            None 0
            [\<lparr>duration = js ''2.0000''\<rparr>, \<lparr>duration = js ''3.0000''\<rparr>,
             \<lparr>duration = js ''4.0000''\<rparr>]
            \<lparr>logStorage = Map.empty, console = []\<rparr> = Inr st' \<and>
          logStorage st' (js ''res'') =
            Some [\<lparr>date = 1000, query = js ''INSERT a'', executionTime = 2, slow = None\<rparr>,
                  \<lparr>date = 1001, query = js ''INSERT b'', executionTime = 3, slow = None\<rparr>] \<and>
          console st' =
            [\<lparr>cl_resource = js ''res'', cl_executionTime = 2, cl_query = js ''INSERT a'',
              cl_parameters = Some 1\<rparr>,
             \<lparr>cl_resource = js ''res'', cl_executionTime = 3, cl_query = js ''INSERT b'',
              cl_parameters = None\<rparr>]"
proof -
  let ?batch = "[\<lparr>tx_query = js ''INSERT a'', tx_params = Some (1::nat)\<rparr>,
                 \<lparr>tx_query = js ''INSERT b'', tx_params = None\<rparr>]"
  let ?rows = "[\<lparr>duration = js ''2.0000''\<rparr>, \<lparr>duration = js ''3.0000''\<rparr>,
                \<lparr>duration = js ''4.0000''\<rparr>]"
  have h0: "\<not> List.member objectPrototypeKeys (js ''res'')"
    by (simp add: objectPrototypeKeys_def js_def)
  have h1: "2 < length ?rows" by simp
  have h2: "index ?batch (0 + int 2) = None" by (simp add: index_def)
  have h3: "\<forall>j<2. index ?batch (0 + int j) \<noteq> None"
    by (simp add: index_def)
  have e: "List.enumerate 0 (take 2 ?rows) =
             [(0, \<lparr>duration = js ''2.0000''\<rparr>), (1, \<lparr>duration = js ''3.0000''\<rparr>)]"
    by (simp add: numeral_2_eq_2)
  show ?thesis
    using profileBatchStatements_stops_at_missing_entry
      [OF h0 h1 h2 h3,
        of "\<lparr>mysql_debug = DebugFlag True, mysql_log_size = 100,
             mysql_slow_query_warning = 200, mysql_ui = True\<rparr>"
           "\<lambda>s. if s = js ''2.0000'' then 2 else 3" "\<lambda>i. 1000 + int i" None
           "\<lparr>logStorage = Map.empty, console = []\<rparr>"]
    unfolding e by (auto simp: js_def)
qed

text \<open>
  Claim C9: the single-template form does not check \<open>offset + i\<close> against the parameter
  list. For every offset, parameter list and sequence of rows, and a resource whose name is
  not that of a property of \<open>Object.prototype\<close>, the function returns and leaves one
  entry for every row: the console has one more line for each row that is slow or
  debugged, whose parameters are the element at \<open>offset + i\<close> when there is one and
  \<open>undefined\<close> when \<open>offset + i\<close> is negative or past the end; with the dashboard
  enabled, the log of the resource has one more record for every row, the oldest records
  being evicted as \<open>logQuery\<close> does. The heterogeneous form of the same statements stops
  at the first row \<open>k\<close> without an element at \<open>offset + k\<close>: it does what the
  single-template form does on the first \<open>k\<close> rows alone.
\<close>

theorem profileBatchStatements_template_no_bounds_check:
  assumes "\<not> List.member objectPrototypeKeys r"
  shows "(\<exists>st'. profileBatchStatements cfg parseFloat clock r (QueryString text) (Some ps) offset
                  profiler st = Inr st' \<and>
            console st' = console st @
              map (\<lambda>(i, row). consoleLine r (parseFloat (duration row)) text
                     (if 0 \<le> offset + int i \<and> offset + int i < int (length ps)
                      then Some (ps ! nat (offset + int i)) else None))
                (filter (\<lambda>(i, row). shouldPrint cfg r (parseFloat (duration row)))
                   (List.enumerate 0 profiler)) \<and>
            logStorage st' =
              (if mysql_ui cfg \<and> profiler \<noteq> []
               then (logStorage st)(r \<mapsto>
                      drop (length profiler - (nat (mysql_log_size cfg) + 1 - length (logOf st r)))
                        (logOf st r @
                         map (\<lambda>(i, row). queryData cfg text (parseFloat (duration row)) (clock i))
                           (List.enumerate 0 profiler)))
               else logStorage st)) \<and>
         (k < length profiler \<and> index ps (offset + int k) = None \<and>
          (\<forall>j<k. index ps (offset + int j) \<noteq> None) \<longrightarrow>
            profileBatchStatements cfg parseFloat clock r
              (QueryArray (map (\<lambda>p. \<lparr>tx_query = text, tx_params = Some p\<rparr>) ps)) parameters offset
              profiler st =
            profileBatchStatements cfg parseFloat clock r (QueryString text) (Some ps) offset
              (take k profiler) st)"
proof (intro conjI impI)
  let ?rows = "List.enumerate 0 profiler"
  let ?qf = "\<lambda>x :: nat \<times> ProfilerRow. text"
  let ?tf = "\<lambda>x :: nat \<times> ProfilerRow. parseFloat (duration (snd x))"
  let ?pf = "\<lambda>x :: nat \<times> ProfilerRow. index ps (offset + int (fst x))"
  let ?nf = "\<lambda>x :: nat \<times> ProfilerRow. clock (fst x)"
  have run: "profileBatchStatements cfg parseFloat clock r (QueryString text) (Some ps) offset
               profiler st = logQueries cfg (map (\<lambda>x. (r, ?qf x, ?tf x, ?pf x, ?nf x)) ?rows) st"
    by (cases profiler)
       (simp_all add: profileBatchStatements_def templateLoop_logQueries case_prod_unfold
          del: templateLoop.simps)
  have len: "length ?rows = length profiler" by simp
  have emp: "(?rows \<noteq> []) = (profiler \<noteq> [])" by (cases profiler) simp_all
  show "\<exists>st'. profileBatchStatements cfg parseFloat clock r (QueryString text) (Some ps) offset
                  profiler st = Inr st' \<and>
            console st' = console st @
              map (\<lambda>(i, row). consoleLine r (parseFloat (duration row)) text
                     (if 0 \<le> offset + int i \<and> offset + int i < int (length ps)
                      then Some (ps ! nat (offset + int i)) else None))
                (filter (\<lambda>(i, row). shouldPrint cfg r (parseFloat (duration row)))
                   (List.enumerate 0 profiler)) \<and>
            logStorage st' =
              (if mysql_ui cfg \<and> profiler \<noteq> []
               then (logStorage st)(r \<mapsto>
                      drop (length profiler - (nat (mysql_log_size cfg) + 1 - length (logOf st r)))
                        (logOf st r @
                         map (\<lambda>(i, row). queryData cfg text (parseFloat (duration row)) (clock i))
                           (List.enumerate 0 profiler)))
               else logStorage st)"
    using logQueries_map[OF assms, of cfg ?qf ?tf ?pf ?nf ?rows st]
    unfolding run len emp case_prod_unfold index_def .
next
  assume h: "k < length profiler \<and> index ps (offset + int k) = None \<and>
             (\<forall>j<k. index ps (offset + int j) \<noteq> None)"
  then have ne: "profiler \<noteq> []" by auto
  have loop: "transactionLoop cfg parseFloat clock r
                (map (\<lambda>p. \<lparr>tx_query = text, tx_params = Some p\<rparr>) ps) offset 0 profiler st =
              templateLoop cfg parseFloat clock r text ps offset 0 (take k profiler) st"
    using h by (intro transactionLoop_as_templateLoop) simp_all
  show "profileBatchStatements cfg parseFloat clock r
          (QueryArray (map (\<lambda>p. \<lparr>tx_query = text, tx_params = Some p\<rparr>) ps)) parameters offset
          profiler st =
        profileBatchStatements cfg parseFloat clock r (QueryString text) (Some ps) offset
          (take k profiler) st"
  proof -
    have lhs: "profileBatchStatements cfg parseFloat clock r
                 (QueryArray (map (\<lambda>p. \<lparr>tx_query = text, tx_params = Some p\<rparr>) ps)) parameters
                 offset profiler st =
               transactionLoop cfg parseFloat clock r
                 (map (\<lambda>p. \<lparr>tx_query = text, tx_params = Some p\<rparr>) ps) offset 0 profiler st"
      using ne by (simp add: profileBatchStatements_def)
    have rhs: "profileBatchStatements cfg parseFloat clock r (QueryString text) (Some ps) offset
                 (take k profiler) st =
               templateLoop cfg parseFloat clock r text ps offset 0 (take k profiler) st"
      by (rule profileBatchStatements_template)
    show ?thesis using lhs rhs loop by simp
  qed
qed

theorem profileBatchStatements_template_no_bounds_check_witness:
  "(\<exists>st'. profileBatchStatements
            \<lparr>mysql_debug = DebugFlag True, mysql_log_size = 100,
              mysql_slow_query_warning = 200, mysql_ui = True\<rparr>
            (\<lambda>s. if s = js ''2.0000'' then 2 else 3) (\<lambda>i. 1000 + int i) (js ''res'')
            (QueryString (js ''INSERT INTO t VALUES (?)'')) (Some [10 :: nat]) 0
            [\<lparr>duration = js ''2.0000''\<rparr>, \<lparr>duration = js ''3.0000''\<rparr>]
            \<lparr>logStorage = Map.empty, console = []\<rparr> = Inr st' \<and>
          logStorage st' (js ''res'') =
            Some [\<lparr>date = 1000, query = js ''INSERT INTO t VALUES (?)'', executionTime = 2,
                    slow = None\<rparr>,
                  \<lparr>date = 1001, query = js ''INSERT INTO t VALUES (?)'', executionTime = 3,
                    slow = None\<rparr>] \<and>
          console st' =
            [\<lparr>cl_resource = js ''res'', cl_executionTime = 2,
              cl_query = js ''INSERT INTO t VALUES (?)'', cl_parameters = Some 10\<rparr>,
             \<lparr>cl_resource = js ''res'', cl_executionTime = 3,
              cl_query = js ''INSERT INTO t VALUES (?)'', cl_parameters = None\<rparr>]) \<and>
   (\<exists>st'. profileBatchStatements
            \<lparr>mysql_debug = DebugFlag True, mysql_log_size = 100,
              mysql_slow_query_warning = 200, mysql_ui = True\<rparr>
            (\<lambda>s. if s = js ''2.0000'' then 2 else 3) (\<lambda>i. 1000 + int i) (js ''res'')
            (QueryArray [\<lparr>tx_query = js ''INSERT INTO t VALUES (?)'', tx_params = Some (10 :: nat)\<rparr>])
            None 0
            [\<lparr>duration = js ''2.0000''\<rparr>, \<lparr>duration = js ''3.0000''\<rparr>]
            \<lparr>logStorage = Map.empty, console = []\<rparr> = Inr st' \<and>
          logStorage st' (js ''res'') =
            Some [\<lparr>date = 1000, query = js ''INSERT INTO t VALUES (?)'', executionTime = 2,
                    slow = None\<rparr>])"
proof -
  have h0: "\<not> List.member objectPrototypeKeys (js ''res'')"
    by (simp add: objectPrototypeKeys_def js_def)
  show ?thesis
    using profileBatchStatements_template_no_bounds_check
      [OF h0,
        of "\<lparr>mysql_debug = DebugFlag True, mysql_log_size = 100,
             mysql_slow_query_warning = 200, mysql_ui = True\<rparr>"
           "\<lambda>s. if s = js ''2.0000'' then 2 else 3" "\<lambda>i. 1000 + int i"
           "js ''INSERT INTO t VALUES (?)''" "[10 :: nat]" 0
           "[\<lparr>duration = js ''2.0000''\<rparr>, \<lparr>duration = js ''3.0000''\<rparr>]"
           "\<lparr>logStorage = Map.empty, console = []\<rparr>" 1 None]
    by (auto simp: js_def index_def profileBatchStatements_def logQuery_def getProperty_def
          objectPrototypeKeys_def)
qed

text \<open>
  Claim C6: in the single-template form every row gives one log entry that pairs the
  template with the parameter set at \<open>offset + i\<close> and with the row's duration converted
  to milliseconds. The pairing is as claimed (see the theorem of C9); the duration is not.
  The \<open>SELECT\<close> of line 63 multiplies the seconds by 1000 and formats the result with
  \<open>FORMAT(..., 4)\<close>, which groups the integer digits by thousands, and \<open>parseFloat\<close>
  (line 73) stops reading at the comma. For a statement that took 1.2345678 seconds the
  row holds \<open>1,234.5678\<close>, and \<open>parseFloat\<close> reads \<open>1\<close> from it: the entry is
  recorded with 1 millisecond instead of 1234.5678, and with a threshold of 200
  milliseconds it is neither marked slow nor printed.
\<close>

theorem profileBatchStatements_duration_truncated_at_separator:
  assumes "sqlFormat 1234.5678 = js ''1,234.5678''"
    and "parseFloat (js ''1,234.5678'') = 1"
  shows "\<exists>st'. profileBatchStatements
                 \<lparr>mysql_debug = DebugFlag False, mysql_log_size = 100,
                   mysql_slow_query_warning = 200, mysql_ui = True\<rparr>
                 parseFloat clock (js ''res'') (QueryString (js ''UPDATE t SET a = ?''))
                 (Some [p]) 0 (selectProfiling sqlFormat [1.2345678])
                 \<lparr>logStorage = Map.empty, console = []\<rparr> = Inr st' \<and>
               logStorage st' (js ''res'') =
                 Some [\<lparr>date = clock 0, query = js ''UPDATE t SET a = ?'', executionTime = 1,
                         slow = None\<rparr>] \<and>
               console st' = []"
proof -
  have rows: "selectProfiling sqlFormat [1.2345678] = [\<lparr>duration = js ''1,234.5678''\<rparr>]"
    using assms(1) by (simp add: selectProfiling_def)
  show ?thesis
    unfolding rows using assms(2)
    by (simp add: profileBatchStatements_def logQuery_def index_def getProperty_def
          objectPrototypeKeys_def js_def)
qed

theorem profileBatchStatements_duration_truncated_at_separator_witness:
  "(\<lambda>x :: real. js ''1,234.5678'') 1234.5678 = js ''1,234.5678'' \<and>
   (\<lambda>s. if s = js ''1,234.5678'' then 1 else (0::real)) (js ''1,234.5678'') = 1 \<and>
   (\<exists>st'. profileBatchStatements
            \<lparr>mysql_debug = DebugFlag False, mysql_log_size = 100,
              mysql_slow_query_warning = 200, mysql_ui = True\<rparr>
            (\<lambda>s. if s = js ''1,234.5678'' then 1 else 0) (\<lambda>i. 1000 + int i) (js ''res'')
            (QueryString (js ''UPDATE t SET a = ?'')) (Some [7 :: nat]) 0
            (selectProfiling (\<lambda>x. js ''1,234.5678'') [1.2345678])
            \<lparr>logStorage = Map.empty, console = []\<rparr> = Inr st' \<and>
          logStorage st' (js ''res'') =
            Some [\<lparr>date = 1000, query = js ''UPDATE t SET a = ?'', executionTime = 1,
                    slow = None\<rparr>] \<and>
          console st' = [])"
proof -
  have h1: "(\<lambda>x :: real. js ''1,234.5678'') 1234.5678 = js ''1,234.5678''"
    by simp
  have h2: "(\<lambda>s. if s = js ''1,234.5678'' then 1 else (0::real)) (js ''1,234.5678'') = 1"
    by simp
  show ?thesis
    using h1 h2 profileBatchStatements_duration_truncated_at_separator
      [where sqlFormat = "\<lambda>x. js ''1,234.5678''"
         and parseFloat = "\<lambda>s. if s = js ''1,234.5678'' then 1 else 0"
         and clock = "\<lambda>i. 1000 + int i" and p = "7 :: nat"]
    by simp
qed

subsection \<open>Pages of a resource's log\<close>

lemma includesStr_Nil: "includesStr s []"
  by (cases s) simp_all

lemma aggregate_foldl:
  "foldl (\<lambda>(resourceTime, resourceSlowQueries) q.
              (resourceTime + executionTime q,
               if slow q = Some True then resourceSlowQueries + 1 else resourceSlowQueries))
       (a, b) xs =
   (a + sum_list (map executionTime xs), b + length (filter (\<lambda>q. slow q = Some True) xs))"
  by (induction xs arbitrary: a b) (simp_all add: add.assoc)

lemma aggregate_eq:
  "aggregate xs = (sum_list (map executionTime xs), length (filter (\<lambda>q. slow q = Some True) xs))"
  by (simp add: aggregate_def aggregate_foldl)

text \<open>
  Claim C7: for a request that is answered (the resource is a string with a log, and the
  caller is allowed), \<open>resourceTime\<close>, \<open>resourceSlowQueries\<close> and
  \<open>resourceQueriesCount\<close> are the sum of the execution times, the number of slow records
  and the length of the whole filtered log: the records whose query, in lower case,
  contains the search string in lower case, and all records when there is no search string.
  \<open>pageCount\<close> is the ceiling of that length over 10. None of them depends on
  \<open>pageIndex\<close>, on \<open>sortBy\<close> or on the sorting algorithm, and the statement holds for
  every function \<open>toLowerCase\<close>.
\<close>

theorem fetchResource_aggregates_over_filtered_log:
  assumes "resource data = Some r" and "allowed" and "logStorage st r = Some entries"
  shows "\<exists>resp. fetchResource toLowerCase arraySort allowed data st = Inr (Some resp) \<and>
           resourceTime resp = sum_list (map executionTime
              (filter (\<lambda>q. includesStr (toLowerCase (query q))
                             (if search data = [] then [] else toLowerCase (search data))) entries)) \<and>
           resourceSlowQueries resp = length (filter (\<lambda>q. slow q = Some True)
              (filter (\<lambda>q. includesStr (toLowerCase (query q))
                             (if search data = [] then [] else toLowerCase (search data))) entries)) \<and>
           resourceQueriesCount resp = length
              (filter (\<lambda>q. includesStr (toLowerCase (query q))
                             (if search data = [] then [] else toLowerCase (search data))) entries) \<and>
           pageCount resp = \<lceil>real (length
              (filter (\<lambda>q. includesStr (toLowerCase (query q))
                             (if search data = [] then [] else toLowerCase (search data))) entries)) / 10\<rceil>"
proof (cases "search data = [] \<or> toLowerCase (search data) = []")
  case True
  then have "(if search data = [] then [] else toLowerCase (search data)) = []" by auto
  then show ?thesis using assms True
    by (auto simp: fetchResource_def Let_def aggregate_eq includesStr_Nil getProperty_def)
next
  case False
  then show ?thesis using assms
    by (simp add: fetchResource_def Let_def aggregate_eq getProperty_def)
qed

theorem fetchResource_aggregates_over_filtered_log_witness:
  "\<exists>resp. fetchResource (map (\<lambda>c. if 65 \<le> c \<and> c \<le> 90 then c + 32 else c)) sortRight True
            \<lparr>resource = Some (js ''res''), pageIndex = 1, search = js ''SEL'',
              sortBy = Some [\<lparr>sort_id = SortExecutionTime, sort_desc = True\<rparr>]\<rparr>
            (\<lparr>logStorage = [js ''res'' \<mapsto>
                 [\<lparr>date = 10, query = js ''SELECT a'', executionTime = 5, slow = None\<rparr>,
                  \<lparr>date = 11, query = js ''insert b'', executionTime = 7, slow = None\<rparr>,
                  \<lparr>date = 12, query = js ''select c'', executionTime = 300, slow = Some True\<rparr>]],
               console = []\<rparr> :: unit State) = Inr (Some resp) \<and>
          resourceTime resp = 305 \<and> resourceSlowQueries resp = 1 \<and>
          resourceQueriesCount resp = 2 \<and> pageCount resp = 1"
proof -
  have ceil: "\<lceil>(1::real) / 5\<rceil> = (1::int)"
    by (rule ceiling_unique) simp_all
  show ?thesis
    using fetchResource_aggregates_over_filtered_log
      [of "\<lparr>resource = Some (js ''res''), pageIndex = 1, search = js ''SEL'',
              sortBy = Some [\<lparr>sort_id = SortExecutionTime, sort_desc = True\<rparr>]\<rparr>"
          "js ''res''" True
          "\<lparr>logStorage = [js ''res'' \<mapsto>
                 [\<lparr>date = 10, query = js ''SELECT a'', executionTime = 5, slow = None\<rparr>,
                  \<lparr>date = 11, query = js ''insert b'', executionTime = 7, slow = None\<rparr>,
                  \<lparr>date = 12, query = js ''select c'', executionTime = 300, slow = Some True\<rparr>]],
               console = []\<rparr> :: unit State"
          "[\<lparr>date = 10, query = js ''SELECT a'', executionTime = 5, slow = None\<rparr>,
            \<lparr>date = 11, query = js ''insert b'', executionTime = 7, slow = None\<rparr>,
            \<lparr>date = 12, query = js ''select c'', executionTime = 300, slow = Some True\<rparr>]"
          "map (\<lambda>c. if 65 \<le> c \<and> c \<le> 90 then c + 32 else c)" sortRight]
    by (simp add: js_def ceil numeral_2_eq_2)
qed

text \<open>
  Claim C2: a request for a resource without a log is answered with an empty page and zero
  counters, and no exception is raised. The code does not do this: \<open>logStorage[data.resource]\<close>
  is \<open>undefined\<close>, and the handler throws a TypeError before it sends anything, whatever the
  search string, the sort request and the page index.
\<close>

theorem fetchResource_unknown_resource_throws:
  "fetchResource toLowerCase arraySort True
     \<lparr>resource = Some (js ''none-such''), pageIndex = p, search = s, sortBy = sb\<rparr>
     \<lparr>logStorage = Map.empty, console = []\<rparr> = Inl TypeError"
  by (simp add: fetchResource_def Let_def getProperty_def objectPrototypeKeys_def js_def)

subsection \<open>Sorting\<close>

lemma sortQueries_desc_is_rev_asc:
  "sortQueries arraySort qs \<lparr>sort_id = sid, sort_desc = True\<rparr> =
     rev (sortQueries arraySort qs \<lparr>sort_id = sid, sort_desc = False\<rparr>)"
  by (simp add: sortQueries_def)

text \<open>
  Claim C3: sorted by \<open>query\<close>, records with equal query text keep their insertion order
  in ascending mode, and the descending result is the reverse of the ascending one. The
  second half holds for every sorting algorithm (\<open>sortQueries_desc_is_rev_asc\<close>). The
  first half is not what the comparator asks for: for two records with the same text it
  returns \<open>-1\<close> in both orders and never \<open>0\<close>, so it tells the sort that each of the two
  comes before the other, and their order is left to the algorithm. Of two insertion
  sorts that both keep ties of a well-behaved comparator in place, one returns the two
  records swapped and the other returns them in insertion order.
\<close>

theorem compareFn_query_never_reports_a_tie:
  "compareFn SortQuery
     \<lparr>date = 1, query = js ''SELECT 1'', executionTime = 5, slow = None\<rparr>
     \<lparr>date = 2, query = js ''SELECT 1'', executionTime = 7, slow = None\<rparr> = - 1 \<and>
   compareFn SortQuery
     \<lparr>date = 2, query = js ''SELECT 1'', executionTime = 7, slow = None\<rparr>
     \<lparr>date = 1, query = js ''SELECT 1'', executionTime = 5, slow = None\<rparr> = - 1 \<and>
   sortQueries sortLeft
     [\<lparr>date = 1, query = js ''SELECT 1'', executionTime = 5, slow = None\<rparr>,
      \<lparr>date = 2, query = js ''SELECT 1'', executionTime = 7, slow = None\<rparr>]
     \<lparr>sort_id = SortQuery, sort_desc = False\<rparr> =
     [\<lparr>date = 2, query = js ''SELECT 1'', executionTime = 7, slow = None\<rparr>,
      \<lparr>date = 1, query = js ''SELECT 1'', executionTime = 5, slow = None\<rparr>] \<and>
   sortQueries sortRight
     [\<lparr>date = 1, query = js ''SELECT 1'', executionTime = 5, slow = None\<rparr>,
      \<lparr>date = 2, query = js ''SELECT 1'', executionTime = 7, slow = None\<rparr>]
     \<lparr>sort_id = SortQuery, sort_desc = False\<rparr> =
     [\<lparr>date = 1, query = js ''SELECT 1'', executionTime = 5, slow = None\<rparr>,
      \<lparr>date = 2, query = js ''SELECT 1'', executionTime = 7, slow = None\<rparr>]"
  by (simp add: compareFn_def sortQueries_def sortLeft_def sortRight_def)

subsection \<open>The message of logError\<close>

lemma stripLiteral_append: "stripLiteral lit (lit @ s) = Some s"
  by (induction lit) simp_all

lemma stripLiteral_Some: "stripLiteral lit s = Some s1 \<Longrightarrow> s = lit @ s1"
  by (induction lit s rule: stripLiteral.induct) (auto split: if_splits)

lemma list_all_takeWhile: "list_all P (takeWhile P xs)"
  by (induction xs) simp_all

lemma dropWhile_head: "case dropWhile P xs of [] \<Rightarrow> True | c # _ \<Rightarrow> \<not> P c"
  by (induction xs) simp_all

lemma takeWhile_all_append:
  "list_all P xs \<Longrightarrow> (case ys of [] \<Rightarrow> True | y # _ \<Rightarrow> \<not> P y) \<Longrightarrow> takeWhile P (xs @ ys) = xs"
  by (induction xs) (auto split: list.splits)

lemma dropWhile_all_append:
  "list_all P xs \<Longrightarrow> (case ys of [] \<Rightarrow> True | y # _ \<Rightarrow> \<not> P y) \<Longrightarrow> dropWhile P (xs @ ys) = ys"
  by (induction xs) (auto split: list.splits)

lemma takeWhile_all_prefix: "list_all P xs \<Longrightarrow> takeWhile P (xs @ ys) = xs @ takeWhile P ys"
  by (induction xs) simp_all

lemma dropWhile_all_prefix: "list_all P xs \<Longrightarrow> dropWhile P (xs @ ys) = dropWhile P ys"
  by (induction xs) simp_all

lemma separator_not_digit: "isSeparator c \<Longrightarrow> \<not> isDigit c"
  by (auto simp: isSeparator_def isDigit_def isSpace_def)

lemma colon_not_path: "\<not> isPathChar 58"
  by (simp add: isPathChar_def isWordChar_def)

lemma isScriptLocationPrefix_nonempty: "isScriptLocationPrefix m \<Longrightarrow> m \<noteq> []"
  by (auto simp: isScriptLocationPrefix_def js_def)

text \<open>
  The matcher against the expression: a match it finds is a word of the expression, as
  long as it can be; and where a word of the expression begins, it finds a match.
\<close>

lemma matchScriptError_sound:
  assumes "matchScriptError s = Some rest"
  shows "\<exists>m. s = m @ rest \<and> isScriptLocationPrefix m \<and>
             (case rest of [] \<Rightarrow> True | c # _ \<Rightarrow> \<not> isSeparator c)"
proof -
  from assms obtain s1 where s1: "stripLiteral (js ''SCRIPT ERROR: citizen:'') s = Some s1"
    by (auto simp: matchScriptError_def split: option.splits)
  from assms s1 have path: "takeWhile isPathChar s1 \<noteq> []"
    by (auto simp: matchScriptError_def split: if_splits)
  from assms s1 path obtain s2 where s2: "dropWhile isPathChar s1 = 58 # s2"
    by (auto simp: matchScriptError_def split: list.splits if_splits)
  from assms s1 path s2 have line: "takeWhile isDigit s2 \<noteq> []"
    by (auto simp: matchScriptError_def split: if_splits)
  from assms s1 path s2 line have sep: "takeWhile isSeparator (dropWhile isDigit s2) \<noteq> []"
    by (auto simp: matchScriptError_def split: if_splits)
  from assms s1 path s2 line sep
  have rest: "rest = dropWhile isSeparator (dropWhile isDigit s2)"
    by (auto simp: matchScriptError_def split: if_splits)
  let ?m = "js ''SCRIPT ERROR: citizen:'' @ takeWhile isPathChar s1 @ [58] @
            takeWhile isDigit s2 @ takeWhile isSeparator (dropWhile isDigit s2)"
  have "s = js ''SCRIPT ERROR: citizen:'' @ s1"
    using s1 by (rule stripLiteral_Some)
  moreover have "s1 = takeWhile isPathChar s1 @ 58 # s2"
    using s2 takeWhile_dropWhile_id[of isPathChar s1] by simp
  moreover have "s2 = takeWhile isDigit s2 @ takeWhile isSeparator (dropWhile isDigit s2) @ rest"
    using rest takeWhile_dropWhile_id[of isDigit s2]
      takeWhile_dropWhile_id[of isSeparator "dropWhile isDigit s2"] by simp
  ultimately have dec: "s = ?m @ rest"
    by (metis append.assoc append_Cons append_Nil)
  have word: "isScriptLocationPrefix ?m"
    unfolding isScriptLocationPrefix_def
    using path line sep list_all_takeWhile by blast
  have tail: "case rest of [] \<Rightarrow> True | c # _ \<Rightarrow> \<not> isSeparator c"
    unfolding rest by (rule dropWhile_head)
  from dec word tail show ?thesis by blast
qed

lemma matchScriptError_complete:
  assumes "isScriptLocationPrefix m"
  shows "matchScriptError (m @ post) = Some (dropWhile isSeparator post)"
proof -
  from assms obtain path line sep where
    m: "m = js ''SCRIPT ERROR: citizen:'' @ path @ [58] @ line @ sep"
    and path: "path \<noteq> []" "list_all isPathChar path"
    and line: "line \<noteq> []" "list_all isDigit line"
    and sep: "sep \<noteq> []" "list_all isSeparator sep"
    unfolding isScriptLocationPrefix_def by blast
  obtain c sep' where c: "sep = c # sep'" using sep(1) by (cases sep) auto
  then have nd: "\<not> isDigit c" using sep(2) separator_not_digit by simp
  have p1: "takeWhile isPathChar (path @ 58 # line @ sep @ post) = path"
    using path(2) colon_not_path by (intro takeWhile_all_append) simp_all
  have p2: "dropWhile isPathChar (path @ 58 # line @ sep @ post) = 58 # line @ sep @ post"
    using path(2) colon_not_path by (intro dropWhile_all_append) simp_all
  have d1: "takeWhile isDigit (line @ sep @ post) = line"
    using line(2) nd c by (intro takeWhile_all_append) simp_all
  have d2: "dropWhile isDigit (line @ sep @ post) = sep @ post"
    using line(2) nd c by (intro dropWhile_all_append) simp_all
  have s1: "takeWhile isSeparator (sep @ post) = sep @ takeWhile isSeparator post"
    using sep(2) by (rule takeWhile_all_prefix)
  have s2: "dropWhile isSeparator (sep @ post) = dropWhile isSeparator post"
    using sep(2) by (rule dropWhile_all_prefix)
  have "matchScriptError (js ''SCRIPT ERROR: citizen:'' @ (path @ 58 # line @ sep @ post)) =
          Some (dropWhile isSeparator post)"
    unfolding matchScriptError_def stripLiteral_append
    using p1 p2 d1 d2 s1 s2 path(1) line(1) sep(1) by simp
  then show ?thesis using m by simp
qed

text \<open>
  \<open>replace\<close> on every string: without a word of the expression in it, the string is
  returned as it is; otherwise the leftmost word, as long as it can be, is taken out.
\<close>

lemma replaceScriptError_leftmost:
  "(\<not> (\<exists>pre m post. e = pre @ m @ post \<and> isScriptLocationPrefix m) \<and>
    replaceScriptError e = e) \<or>
   (\<exists>pre m post. e = pre @ m @ post \<and> isScriptLocationPrefix m \<and>
      (\<forall>pre' m' post'. e = pre' @ m' @ post' \<and> isScriptLocationPrefix m' \<longrightarrow>
         length pre \<le> length pre') \<and>
      (case post of [] \<Rightarrow> True | c # _ \<Rightarrow> \<not> isSeparator c) \<and>
      replaceScriptError e = pre @ post)"
proof (induction e)
  case Nil
  have "\<not> (\<exists>pre m post. [] = pre @ m @ post \<and> isScriptLocationPrefix m)"
    using isScriptLocationPrefix_nonempty by auto
  then show ?case by simp
next
  case (Cons c cs)
  show ?case
  proof (cases "matchScriptError (c # cs)")
    case (Some rest)
    from matchScriptError_sound[OF Some] obtain m where
      m: "c # cs = m @ rest" "isScriptLocationPrefix m"
         "case rest of [] \<Rightarrow> True | c # _ \<Rightarrow> \<not> isSeparator c"
      by blast
    have d0: "c # cs = [] @ m @ rest" using m(1) by simp
    have l0: "\<forall>pre' m' post'. c # cs = pre' @ m' @ post' \<and> isScriptLocationPrefix m' \<longrightarrow>
                length ([] :: jsstring) \<le> length pre'"
      by simp
    have r0: "replaceScriptError (c # cs) = [] @ rest" using Some by simp
    from d0 m(2) l0 m(3) r0 show ?thesis by blast
  next
    case None
    have no0: "\<And>m post. c # cs = m @ post \<Longrightarrow> \<not> isScriptLocationPrefix m"
    proof
      fix m post
      assume "c # cs = m @ post" and "isScriptLocationPrefix m"
      then have "matchScriptError (c # cs) = Some (dropWhile isSeparator post)"
        using matchScriptError_complete[of m post] by simp
      with None show False by simp
    qed
    have step: "replaceScriptError (c # cs) = c # replaceScriptError cs"
      using None by simp
    have shift: "\<And>pre' m' post'. c # cs = pre' @ m' @ post' \<Longrightarrow> isScriptLocationPrefix m' \<Longrightarrow>
                   \<exists>pre''. pre' = c # pre'' \<and> cs = pre'' @ m' @ post'"
    proof -
      fix pre' m' post'
      assume d: "c # cs = pre' @ m' @ post'" and w: "isScriptLocationPrefix m'"
      show "\<exists>pre''. pre' = c # pre'' \<and> cs = pre'' @ m' @ post'"
      proof (cases pre')
        case Nil
        with d w no0[of m' post'] show ?thesis by simp
      next
        case (Cons a pre'')
        with d show ?thesis by simp
      qed
    qed
    from Cons.IH show ?thesis
    proof
      assume A: "\<not> (\<exists>pre m post. cs = pre @ m @ post \<and> isScriptLocationPrefix m) \<and>
                 replaceScriptError cs = cs"
      have "\<not> (\<exists>pre m post. c # cs = pre @ m @ post \<and> isScriptLocationPrefix m)"
        using A shift by blast
      then show ?thesis using A step by simp
    next
      assume B: "\<exists>pre m post. cs = pre @ m @ post \<and> isScriptLocationPrefix m \<and>
                   (\<forall>pre' m' post'. cs = pre' @ m' @ post' \<and> isScriptLocationPrefix m' \<longrightarrow>
                      length pre \<le> length pre') \<and>
                   (case post of [] \<Rightarrow> True | c # _ \<Rightarrow> \<not> isSeparator c) \<and>
                   replaceScriptError cs = pre @ post"
      then obtain pre m post where
        d: "cs = pre @ m @ post" and w: "isScriptLocationPrefix m"
        and left: "\<forall>pre' m' post'. cs = pre' @ m' @ post' \<and> isScriptLocationPrefix m' \<longrightarrow>
                     length pre \<le> length pre'"
        and tail: "case post of [] \<Rightarrow> True | c # _ \<Rightarrow> \<not> isSeparator c"
        and r: "replaceScriptError cs = pre @ post"
        by blast
      have left': "\<forall>pre' m' post'. c # cs = pre' @ m' @ post' \<and> isScriptLocationPrefix m' \<longrightarrow>
                     length (c # pre) \<le> length pre'"
      proof (intro allI impI)
        fix pre' m' post'
        assume h: "c # cs = pre' @ m' @ post' \<and> isScriptLocationPrefix m'"
        then obtain pre'' where p: "pre' = c # pre''" "cs = pre'' @ m' @ post'"
          using shift by blast
        with left h have "length pre \<le> length pre''" by blast
        with p show "length (c # pre) \<le> length pre'" by simp
      qed
      have d1: "c # cs = (c # pre) @ m @ post" using d by simp
      have r1: "replaceScriptError (c # cs) = (c # pre) @ post" using r step by simp
      from d1 w left' tail r1 show ?thesis by blast
    qed
  qed
qed

text \<open>
  Claim C4, as amended: the namespace of the prefix that \<open>logError\<close> removes is the fixed
  word \<open>citizen\<close>, the line number has to be followed by at least one colon or white-space
  character, and only the first prefix is removed. For every error that is a string: when
  no part of it has the form \<open>SCRIPT ERROR: citizen:\<close>, path (letters, digits, \<open>_\<close>,
  \<open>/\<close>, \<open>.\<close>), colon, line number, colons or white space, the message is the string as
  it is; otherwise the message is the string without the leftmost such part, taken with all
  the colons and white space that follow the line number.
\<close>

theorem logError_removes_first_citizen_prefix:
  "(\<not> (\<exists>pre m post. e = pre @ m @ post \<and> isScriptLocationPrefix m) \<and>
    ev_message (fst (logError stringify r hasCb isPromise (ErrorString e) q ps
                       includeParameters)) = e) \<or>
   (\<exists>pre m post. e = pre @ m @ post \<and> isScriptLocationPrefix m \<and>
      (\<forall>pre' m' post'. e = pre' @ m' @ post' \<and> isScriptLocationPrefix m' \<longrightarrow>
         length pre \<le> length pre') \<and>
      (case post of [] \<Rightarrow> True | c # _ \<Rightarrow> \<not> isSeparator c) \<and>
      ev_message (fst (logError stringify r hasCb isPromise (ErrorString e) q ps
                         includeParameters)) = pre @ post)"
proof -
  have msg: "ev_message (fst (logError stringify r hasCb isPromise (ErrorString e) q ps
                                includeParameters)) = replaceScriptError e"
    by (simp add: logError_def Let_def)
  show ?thesis unfolding msg by (rule replaceScriptError_leftmost)
qed

theorem logError_removes_first_citizen_prefix_witness:
  "(\<exists>pre m post.
      js ''x SCRIPT ERROR: citizen:/scripting/lua/scheduler.lua:12: boom'' = pre @ m @ post \<and>
      isScriptLocationPrefix m) \<and>
   ev_message (fst (logError (\<lambda>_. []) (js ''res'') False False
      (ErrorString (js ''x SCRIPT ERROR: citizen:/scripting/lua/scheduler.lua:12: boom''))
      None (None :: unit option) False)) = js ''x boom''"
proof -
  have word: "isScriptLocationPrefix
                (js ''SCRIPT ERROR: citizen:/scripting/lua/scheduler.lua:12: '')"
    unfolding isScriptLocationPrefix_def
    by (intro exI[of _ "js ''/scripting/lua/scheduler.lua''"] exI[of _ "js ''12''"]
          exI[of _ "js '': ''"])
       (simp add: js_def isPathChar_def isWordChar_def isDigit_def isSeparator_def isSpace_def)
  have dec: "js ''x SCRIPT ERROR: citizen:/scripting/lua/scheduler.lua:12: boom'' =
               js ''x '' @ js ''SCRIPT ERROR: citizen:/scripting/lua/scheduler.lua:12: '' @
               js ''boom''"
    by (simp add: js_def)
  have ex: "\<exists>pre m post.
      js ''x SCRIPT ERROR: citizen:/scripting/lua/scheduler.lua:12: boom'' = pre @ m @ post \<and>
      isScriptLocationPrefix m"
    using word dec by blast
  have val: "replaceScriptError
               (js ''x SCRIPT ERROR: citizen:/scripting/lua/scheduler.lua:12: boom'') =
             js ''x boom''"
    by (simp add: js_def matchScriptError_def isPathChar_def isWordChar_def isDigit_def
          isSeparator_def isSpace_def)
  show ?thesis
    using ex val
      logError_removes_first_citizen_prefix
        [of "js ''x SCRIPT ERROR: citizen:/scripting/lua/scheduler.lua:12: boom''"
            "\<lambda>_. []" "js ''res''" False False None "None :: unit option" False]
    by (simp add: logError_def Let_def)
qed

text \<open>
  Claim C4 as it was stated fails in three ways. A prefix with the namespace \<open>monitor\<close>
  stays in the message. A prefix that ends with the line number, with no colon or white
  space behind it, stays as well, while one that is followed by a colon and a blank loses
  both. And of two prefixes only the first is removed.
\<close>

theorem logError_other_namespace_counterexample:
  "ev_message (fst (logError (\<lambda>_. []) (js ''res'') False False
      (ErrorString (js ''SCRIPT ERROR: monitor:/server/main.lua:12: boom''))
      None (None :: unit option) False)) =
     js ''SCRIPT ERROR: monitor:/server/main.lua:12: boom'' \<and>
   ev_message (fst (logError (\<lambda>_. []) (js ''res'') False False
      (ErrorString (js ''SCRIPT ERROR: citizen:/server/main.lua:12''))
      None (None :: unit option) False)) =
     js ''SCRIPT ERROR: citizen:/server/main.lua:12'' \<and>
   ev_message (fst (logError (\<lambda>_. []) (js ''res'') False False
      (ErrorString (js ''SCRIPT ERROR: citizen:/server/main.lua:12: boom''))
      None (None :: unit option) False)) = js ''boom'' \<and>
   ev_message (fst (logError (\<lambda>_. []) (js ''res'') False False
      (ErrorString (js ''SCRIPT ERROR: citizen:/a.lua:1: SCRIPT ERROR: citizen:/b.lua:2: boom''))
      None (None :: unit option) False)) = js ''SCRIPT ERROR: citizen:/b.lua:2: boom''"
  by (simp add: logError_def Let_def js_def matchScriptError_def isPathChar_def isWordChar_def
        isDigit_def isSeparator_def isSpace_def)

end
